theory Spec2Isabelle
  imports Complex_Main "HOL-Library.Word" "HOL-Library.Monad_Syntax"
begin

unbundle bit_operations_syntax

section \<open>Numbers and vectors\<close>

text \<open>
  The engine computes in single precision. A finite \<^verbatim>\<open>float\<close> is modelled by the real
  number it denotes, and every arithmetic operation rounds its exact result with a
  function \<open>rnd\<close> that is a parameter of the model: the theorems below hold for every
  rounding function, the round-to-nearest of binary32 among them. Overflow to an
  infinity and NaN operands are outside the model; the one place where the code
  produces \<^verbatim>\<open>INFINITY\<close> itself (\<^verbatim>\<open>lineToPlane\<close>) has a result type of its own.
\<close>

datatype Vector3d = Vector3d (vx: real) (vy: real) (vz: real)

datatype float = Finite real | Infinity

record AABB =
  getMin :: Vector3d
  getMax :: Vector3d
  getSize :: Vector3d
  isValid :: bool

datatype ObjectType = kEntranceType | kCubeType | kSensorType | kGroupType | kOtherType nat

record Object =
  getObjectID :: "16 word"
  getType :: ObjectType
  getObjectFlags :: "16 word"
  getOrigin :: Vector3d
  getSize_obj :: Vector3d
  boundingBox :: AABB
  isDrawable :: bool
  isPlanar :: bool

record Ray =
  getOrigin_ray :: Vector3d
  getDirection :: Vector3d

text \<open>
  The parts of the engine that the functions below call and that are declared outside
  the excerpt are collected in one record and passed as a parameter.
\<close>

record Externals =
  rnd :: "real \<Rightarrow> real"
  isDestroyed :: "Object \<Rightarrow> bool"
  isInvisible :: "Object \<Rightarrow> bool"
  createPlayerAABB :: "Vector3d \<Rightarrow> int \<Rightarrow> AABB"
  intersectAABB :: "Ray \<Rightarrow> AABB \<Rightarrow> bool"
  collides :: "Vector3d \<Rightarrow> Vector3d \<Rightarrow> AABB \<Rightarrow> bool"
  normalize :: "Vector3d \<Rightarrow> Vector3d"
  vlength :: "Vector3d \<Rightarrow> real"
  floatBits :: "real \<Rightarrow> 32 word"
  bitsFloat :: "32 word \<Rightarrow> real"
  setOrigin :: "Vector3d \<Rightarrow> Object \<Rightarrow> Object"
  duplicate :: "Object \<Rightarrow> Object"

definition fadd :: "Externals \<Rightarrow> real \<Rightarrow> real \<Rightarrow> real" where
  "fadd e a b = rnd e (a + b)"

definition fsub :: "Externals \<Rightarrow> real \<Rightarrow> real \<Rightarrow> real" where
  "fsub e a b = rnd e (a - b)"

definition fmul :: "Externals \<Rightarrow> real \<Rightarrow> real \<Rightarrow> real" where
  "fmul e a b = rnd e (a * b)"

definition fdiv :: "Externals \<Rightarrow> real \<Rightarrow> real \<Rightarrow> real" where
  "fdiv e a b = rnd e (a / b)"

definition zero :: Vector3d where
  "zero = Vector3d 0 0 0"

definition vadd :: "Externals \<Rightarrow> Vector3d \<Rightarrow> Vector3d \<Rightarrow> Vector3d" where
  "vadd e u v = Vector3d (fadd e (vx u) (vx v)) (fadd e (vy u) (vy v)) (fadd e (vz u) (vz v))"

definition vsub :: "Externals \<Rightarrow> Vector3d \<Rightarrow> Vector3d \<Rightarrow> Vector3d" where
  "vsub e u v = Vector3d (fsub e (vx u) (vx v)) (fsub e (vy u) (vy v)) (fsub e (vz u) (vz v))"

definition smul :: "Externals \<Rightarrow> real \<Rightarrow> Vector3d \<Rightarrow> Vector3d" where
  "smul e s v = Vector3d (fmul e s (vx v)) (fmul e s (vy v)) (fmul e s (vz v))"

definition dotProduct :: "Externals \<Rightarrow> Vector3d \<Rightarrow> Vector3d \<Rightarrow> real" where
  "dotProduct e u v =
     fadd e (fadd e (fmul e (vx u) (vx v)) (fmul e (vy u) (vy v))) (fmul e (vz u) (vz v))"

section \<open>Swept boxes\<close>

datatype error = AssertionFailed | EndOfStream

definition lineToPlane :: "Externals \<Rightarrow> Vector3d \<Rightarrow> Vector3d \<Rightarrow> Vector3d \<Rightarrow> Vector3d \<Rightarrow> float" where
  "lineToPlane e p u v n =
     (let NdotU = dotProduct e n u
      in if NdotU = 0 then Infinity
         else Finite (fdiv e (dotProduct e n (vsub e v p)) NdotU))"

definition between :: "real \<Rightarrow> real \<Rightarrow> real \<Rightarrow> bool" where
  "between x a b \<longleftrightarrow> x \<ge> a \<and> x \<le> b"

text \<open>
  \<^verbatim>\<open>sweepAABB\<close> tests six faces in turn, each with the same pattern: the face's normal,
  a test on the sign of the motion component along that normal, and two \<^verbatim>\<open>between\<close> tests
  on the other two axes.
\<close>

datatype Face = XMin | XMax | YMin | YMax | ZMin | ZMax

fun faceNormal :: "Face \<Rightarrow> Vector3d" where
  "faceNormal XMin = Vector3d (-1) 0 0"
| "faceNormal XMax = Vector3d 1 0 0"
| "faceNormal YMin = Vector3d 0 (-1) 0"
| "faceNormal YMax = Vector3d 0 1 0"
| "faceNormal ZMin = Vector3d 0 0 (-1)"
| "faceNormal ZMax = Vector3d 0 0 1"

fun faceMoving :: "Vector3d \<Rightarrow> Face \<Rightarrow> bool" where
  "faceMoving direction XMin \<longleftrightarrow> vx direction > 0"
| "faceMoving direction XMax \<longleftrightarrow> vx direction < 0"
| "faceMoving direction YMin \<longleftrightarrow> vy direction > 0"
| "faceMoving direction YMax \<longleftrightarrow> vy direction < 0"
| "faceMoving direction ZMin \<longleftrightarrow> vz direction > 0"
| "faceMoving direction ZMax \<longleftrightarrow> vz direction < 0"

fun faceInside :: "Externals \<Rightarrow> Vector3d \<Rightarrow> Vector3d \<Rightarrow> Vector3d \<Rightarrow> Face \<Rightarrow> real \<Rightarrow> bool" where
  "faceInside e direction m mh XMin s \<longleftrightarrow>
     between (fmul e s (vy direction)) (vy m) (fadd e (vy m) (vy mh)) \<and>
     between (fmul e s (vz direction)) (vz m) (fadd e (vz m) (vz mh))"
| "faceInside e direction m mh XMax s \<longleftrightarrow>
     between (fmul e s (vy direction)) (vy m) (fadd e (vy m) (vy mh)) \<and>
     between (fmul e s (vz direction)) (vz m) (fadd e (vz m) (vz mh))"
| "faceInside e direction m mh YMin s \<longleftrightarrow>
     between (fmul e s (vx direction)) (vx m) (fadd e (vx m) (vx mh)) \<and>
     between (fmul e s (vz direction)) (vz m) (fadd e (vz m) (vz mh))"
| "faceInside e direction m mh YMax s \<longleftrightarrow>
     between (fmul e s (vx direction)) (vx m) (fadd e (vx m) (vx mh)) \<and>
     between (fmul e s (vz direction)) (vz m) (fadd e (vz m) (vz mh))"
| "faceInside e direction m mh ZMin s \<longleftrightarrow>
     between (fmul e s (vx direction)) (vx m) (fadd e (vx m) (vx mh)) \<and>
     between (fmul e s (vy direction)) (vy m) (fadd e (vy m) (vy mh))"
| "faceInside e direction m mh ZMax s \<longleftrightarrow>
     between (fmul e s (vx direction)) (vx m) (fadd e (vx m) (vx mh)) \<and>
     between (fmul e s (vy direction)) (vy m) (fadd e (vy m) (vy mh))"

text \<open>
  One of the six blocks of \<^verbatim>\<open>sweepAABB\<close>, for the current value of \<^verbatim>\<open>m\<close>. The
  conjunction of the code is evaluated left to right: for \<^verbatim>\<open>s = INFINITY\<close> the test
  \<^verbatim>\<open>s < h\<close> fails and \<^verbatim>\<open>s * direction\<close> is not computed.
\<close>

definition testFace ::
  "Externals \<Rightarrow> Vector3d \<Rightarrow> Vector3d \<Rightarrow> Vector3d \<Rightarrow> Face \<Rightarrow> real \<times> Vector3d \<Rightarrow> real \<times> Vector3d" where
  "testFace e direction m mh f hn =
     (case lineToPlane e zero direction m (faceNormal f) of
        Infinity \<Rightarrow> hn
      | Finite s \<Rightarrow>
          if s \<ge> 0 \<and> faceMoving direction f \<and> s < fst hn \<and> faceInside e direction m mh f s
          then (s, faceNormal f) else hn)"

definition sweepAABB ::
  "Externals \<Rightarrow> AABB \<Rightarrow> AABB \<Rightarrow> Vector3d \<Rightarrow> Vector3d \<Rightarrow> real \<times> Vector3d" where
  "sweepAABB e a b direction normal =
     (let m = vsub e (getMin b) (getMax a);
          mh = vadd e (getSize a) (getSize b);
          hn = (1, normal);
          \<comment> \<open>X min\<close>
          hn = testFace e direction m mh XMin hn;
          \<comment> \<open>X max\<close>
          m = Vector3d (fadd e (vx m) (vx mh)) (vy m) (vz m);
          hn = testFace e direction m mh XMax hn;
          m = Vector3d (fsub e (vx m) (vx mh)) (vy m) (vz m);
          \<comment> \<open>Y min\<close>
          hn = testFace e direction m mh YMin hn;
          \<comment> \<open>Y max\<close>
          m = Vector3d (vx m) (fadd e (vy m) (vy mh)) (vz m);
          hn = testFace e direction m mh YMax hn;
          m = Vector3d (vx m) (fsub e (vy m) (vy mh)) (vz m);
          \<comment> \<open>Z min\<close>
          hn = testFace e direction m mh ZMin hn;
          \<comment> \<open>Z max\<close>
          m = Vector3d (vx m) (vy m) (fadd e (vz m) (vz mh));
          hn = testFace e direction m mh ZMax hn
      in hn)"





section \<open>The area\<close>

text \<open>
  \<^verbatim>\<open>ObjectMap\<close> is a hash map from 16-bit identifiers to objects; the drawable-ordered
  view \<^verbatim>\<open>_drawableObjects\<close> is an array, modelled by the list of the objects it points to.
\<close>

record Area =
  areaID :: "16 word"
  areaFlags :: "16 word"
  objectsByID :: "16 word \<rightharpoonup> Object"
  entrancesByID :: "16 word \<rightharpoonup> Object"
  drawableObjects :: "Object list"
  addedObjects :: "16 word \<rightharpoonup> Object"
  colorRemaps :: "32 word \<rightharpoonup> 32 word"
  scale :: "8 word"
  skyColor :: "8 word"
  groundColor :: "8 word"
  usualBackgroundColor :: "8 word"
  underFireBackgroundColor :: "8 word"
  inkColor :: "8 word"
  paperColor :: "8 word"
  gasPocketRadius :: "32 word"

section \<open>Collision resolution\<close>

definition epsilon :: real where
  "epsilon = 1.5"

text \<open>The body of the loop over \<^verbatim>\<open>_drawableObjects\<close> in \<^verbatim>\<open>resolveCollisions\<close>.\<close>

definition sweepObject ::
  "Externals \<Rightarrow> AABB \<Rightarrow> Vector3d \<Rightarrow> real \<times> Vector3d \<Rightarrow> Object \<Rightarrow> real \<times> Vector3d" where
  "sweepObject e bb direction dn obj =
     (if \<not> isDestroyed e obj \<and> \<not> isInvisible e obj
      then (let (collidedDistance, collidedNormal) =
                  sweepAABB e bb (boundingBox obj) direction zero
            in if collidedDistance < fst dn then (collidedDistance, collidedNormal) else dn)
      else dn)"

text \<open>
  One pass of the \<^verbatim>\<open>while\<close> loop up to the assignment to \<^verbatim>\<open>position\<close>: the smallest
  fraction over all objects and the new value of \<^verbatim>\<open>position\<close>.
\<close>

definition resolvePass ::
  "Externals \<Rightarrow> Object list \<Rightarrow> AABB \<Rightarrow> Vector3d \<Rightarrow> Vector3d \<Rightarrow> real \<times> Vector3d" where
  "resolvePass e objs bb lastPosition position =
     (let direction = vsub e position lastPosition;
          (distance, normal) = foldl (sweepObject e bb direction) (1, zero) objs
      in (distance,
          vadd e (vadd e lastPosition (smul e distance direction)) (smul e epsilon normal)))"

function resolveLoop ::
  "Externals \<Rightarrow> Object list \<Rightarrow> AABB \<Rightarrow> Vector3d \<Rightarrow> Vector3d \<Rightarrow> nat \<Rightarrow> error + Vector3d" where
  "resolveLoop e objs bb lastPosition position i =
     (let (distance, position') = resolvePass e objs bb lastPosition position
      in if distance \<ge> 1 then Inr position'
         else if Suc i \<le> 5 then resolveLoop e objs bb lastPosition position' (Suc i)
         else Inl AssertionFailed)"
  by pat_completeness auto
termination
  by (relation "measure (\<lambda>(e, objs, bb, lastPosition, position, i). 6 - i)") auto

declare resolveLoop.simps [simp del]

definition resolveCollisions ::
  "Externals \<Rightarrow> Area \<Rightarrow> Vector3d \<Rightarrow> Vector3d \<Rightarrow> int \<Rightarrow> error + Vector3d" where
  "resolveCollisions e area lastPosition0 newPosition0 playerHeight =
     resolveLoop e (drawableObjects area) (createPlayerAABB e lastPosition0 playerHeight)
       lastPosition0 newPosition0 0"

text \<open>
  The value of \<^verbatim>\<open>position\<close> at the start of pass \<open>k\<close> (passes are counted from 0), and
  whether pass \<open>k\<close> is blocked, that is, finds a fraction below 1.
\<close>

primrec passPosition ::
  "Externals \<Rightarrow> Object list \<Rightarrow> AABB \<Rightarrow> Vector3d \<Rightarrow> Vector3d \<Rightarrow> nat \<Rightarrow> Vector3d" where
  "passPosition e objs bb lastPosition newPosition 0 = newPosition"
| "passPosition e objs bb lastPosition newPosition (Suc k) =
     snd (resolvePass e objs bb lastPosition (passPosition e objs bb lastPosition newPosition k))"

definition blockedPass ::
  "Externals \<Rightarrow> Object list \<Rightarrow> AABB \<Rightarrow> Vector3d \<Rightarrow> Vector3d \<Rightarrow> nat \<Rightarrow> bool" where
  "blockedPass e objs bb lastPosition newPosition k \<longleftrightarrow>
     fst (resolvePass e objs bb lastPosition (passPosition e objs bb lastPosition newPosition k)) < 1"


section \<open>Queries\<close>

text \<open>The body of the loop of \<^verbatim>\<open>shootRay\<close>; the state is \<^verbatim>\<open>size\<close> and \<^verbatim>\<open>collided\<close>.\<close>

definition shootStep ::
  "Externals \<Rightarrow> Ray \<Rightarrow> real \<times> Object option \<Rightarrow> Object \<Rightarrow> real \<times> Object option" where
  "shootStep e ray sc obj =
     (let objSize = vlength e (getSize_obj obj)
      in if \<not> isDestroyed e obj \<and> \<not> isInvisible e obj \<and> isValid (boundingBox obj)
            \<and> intersectAABB e ray (boundingBox obj) \<and> fst sc \<ge> objSize
         then (objSize, Some obj) else sc)"

definition shootRay :: "Externals \<Rightarrow> Area \<Rightarrow> Ray \<Rightarrow> Object option" where
  "shootRay e area ray = snd (foldl (shootStep e ray) (16 * 8192, None) (drawableObjects area))"

text \<open>The four conditions on a candidate that do not depend on its size.\<close>

definition rayHits :: "Externals \<Rightarrow> Ray \<Rightarrow> Object \<Rightarrow> bool" where
  "rayHits e ray obj \<longleftrightarrow>
     \<not> isDestroyed e obj \<and> \<not> isInvisible e obj \<and> isValid (boundingBox obj)
     \<and> intersectAABB e ray (boundingBox obj)"

text \<open>
  \<open>lastSmallest e ray cutoff objs obj\<close>: \<open>obj\<close> occurs in \<open>objs\<close>, is hit by the ray, is no
  larger than the cutoff, no object hit before it is smaller, and every object hit after
  it is strictly larger.
\<close>

definition lastSmallest :: "Externals \<Rightarrow> Ray \<Rightarrow> real \<Rightarrow> Object list \<Rightarrow> Object \<Rightarrow> bool" where
  "lastSmallest e ray cutoff objs obj \<longleftrightarrow>
     (\<exists>pre post. objs = pre @ obj # post
        \<and> rayHits e ray obj \<and> vlength e (getSize_obj obj) \<le> cutoff
        \<and> (\<forall>q\<in>set pre. rayHits e ray q \<longrightarrow>
              vlength e (getSize_obj obj) \<le> vlength e (getSize_obj q))
        \<and> (\<forall>q\<in>set post. rayHits e ray q \<longrightarrow>
              vlength e (getSize_obj obj) < vlength e (getSize_obj q)))"

text \<open>
  \<^verbatim>\<open>checkInSight\<close>: the probe is a cube of side \<^verbatim>\<open>maxDistance / 30\<close>, moved to
  \<^verbatim>\<open>origin + distanceMultiplier * (maxDistance / 10) * direction\<close> for the multipliers 2 to
  10. The probe's \<^verbatim>\<open>collides\<close> is called with its origin and size.
\<close>

definition sightSample :: "Externals \<Rightarrow> Ray \<Rightarrow> real \<Rightarrow> int \<Rightarrow> Vector3d" where
  "sightSample e ray maxDistance distanceMultiplier =
     (let direction = normalize e (getDirection ray)
      in vadd e (getOrigin_ray ray)
           (smul e (fmul e (of_int distanceMultiplier) (fdiv e maxDistance 10)) direction))"

definition sightProbeSize :: "Externals \<Rightarrow> real \<Rightarrow> Vector3d" where
  "sightProbeSize e maxDistance =
     Vector3d (fdiv e maxDistance 30) (fdiv e maxDistance 30) (fdiv e maxDistance 30)"

definition blocksSight :: "Externals \<Rightarrow> Vector3d \<Rightarrow> Vector3d \<Rightarrow> Object \<Rightarrow> bool" where
  "blocksSight e origin sz obj \<longleftrightarrow>
     getType obj \<noteq> kSensorType \<and> \<not> isDestroyed e obj \<and> \<not> isInvisible e obj
     \<and> isValid (boundingBox obj) \<and> collides e origin sz (boundingBox obj)"

definition checkInSight :: "Externals \<Rightarrow> Area \<Rightarrow> Ray \<Rightarrow> real \<Rightarrow> bool" where
  "checkInSight e area ray maxDistance \<longleftrightarrow>
     \<not> list_ex (\<lambda>distanceMultiplier.
            list_ex (blocksSight e (sightSample e ray maxDistance distanceMultiplier)
                       (sightProbeSize e maxDistance))
              (drawableObjects area))
          [2..10]"

section \<open>Construction, adding and removing objects\<close>

text \<open>
  The comparison of the constructor's sort: planar objects come last, and within the same
  class a larger identifier comes first. Identifiers are \<^verbatim>\<open>uint16\<close>.
\<close>

definition compareObjects :: "Object \<Rightarrow> Object \<Rightarrow> bool" where
  "compareObjects object1 object2 =
     (if \<not> isPlanar object1 \<and> isPlanar object2 then True
      else if isPlanar object1 \<and> \<not> isPlanar object2 then False
      else getObjectID object1 > getObjectID object2)"

text \<open>
  Modelled from the spec: \<^verbatim>\<open>Common::sort\<close> is declared outside the excerpt; the spec's
  build-time sort rule only needs the result to be ordered by the comparison, which an
  insertion sort provides.
\<close>

fun insertObject :: "Object \<Rightarrow> Object list \<Rightarrow> Object list" where
  "insertObject obj [] = [obj]"
| "insertObject obj (x # xs) =
     (if compareObjects x obj then x # insertObject obj xs else obj # x # xs)"

definition sortObjects :: "Object list \<Rightarrow> Object list" where
  "sortObjects objs = foldr insertObject objs []"

text \<open>
  The constructor. The two maps are passed as the lists of their entries in iteration
  order; the loop over \<^verbatim>\<open>*_objectsByID\<close> collects the drawable objects in that order.
\<close>

definition newArea ::
  "16 word \<Rightarrow> 16 word \<Rightarrow> (16 word \<times> Object) list \<Rightarrow> (16 word \<times> Object) list \<Rightarrow> Area" where
  "newArea areaID0 areaFlags0 objectsByID0 entrancesByID0 =
     \<lparr>areaID = areaID0, areaFlags = areaFlags0,
      objectsByID = map_of objectsByID0,
      entrancesByID = map_of entrancesByID0,
      drawableObjects = sortObjects (filter isDrawable (map snd objectsByID0)),
      addedObjects = Map.empty,
      colorRemaps = Map.empty,
      scale = 0, skyColor = 255, groundColor = 255, usualBackgroundColor = 255,
      underFireBackgroundColor = 255, inkColor = 255, paperColor = 255, gasPocketRadius = 0\<rparr>"

text \<open>
  \<^verbatim>\<open>addObject\<close>: the pointer may be null (\<open>None\<close>); \<^verbatim>\<open>int id\<close> holds the unsigned
  identifier, which the map operations convert back to a \<^verbatim>\<open>uint16\<close> key.
\<close>

definition addObject :: "Object option \<Rightarrow> Area \<Rightarrow> error + Area" where
  "addObject objPtr area =
     (case objPtr of
        None \<Rightarrow> Inl AssertionFailed
      | Some obj \<Rightarrow>
          (let ident = uint (getObjectID obj);
               key = (word_of_int ident :: 16 word)
           in if objectsByID area key \<noteq> None then Inl AssertionFailed
              else Inr (area\<lparr>objectsByID := (objectsByID area)(key \<mapsto> obj),
                             drawableObjects :=
                               (if isDrawable obj then obj # drawableObjects area
                                else drawableObjects area),
                             addedObjects := (addedObjects area)(key \<mapsto> obj)\<rparr>)))"

text \<open>
  The loop of \<^verbatim>\<open>removeObject\<close>: the first entry of the array that satisfies the test is
  removed, and the loop stops.
\<close>

fun removeFirst :: "(Object \<Rightarrow> bool) \<Rightarrow> Object list \<Rightarrow> Object list" where
  "removeFirst p [] = []"
| "removeFirst p (x # xs) = (if p x then xs else x # removeFirst p xs)"

text \<open>
  \<^verbatim>\<open>removeObject(int16 id)\<close>: the parameter is a signed 16-bit value. The map operations
  convert it to the \<^verbatim>\<open>uint16\<close> key with the same bits; the comparison
  \<^verbatim>\<open>getObjectID() == id\<close> promotes both sides to \<^verbatim>\<open>int\<close>, the identifier as an
  unsigned and \<^verbatim>\<open>id\<close> as a signed value.
\<close>

definition removeObject :: "16 word \<Rightarrow> Area \<Rightarrow> error + Area" where
  "removeObject ident area =
     (let key = (word_of_int (sint ident) :: 16 word)
      in if objectsByID area key = None then Inl AssertionFailed
         else Inr (area\<lparr>drawableObjects :=
                          removeFirst (\<lambda>obj. uint (getObjectID obj) = sint ident)
                            (drawableObjects area),
                        objectsByID := (objectsByID area)(key := None),
                        addedObjects := (addedObjects area)(key := None)\<rparr>))"

section \<open>Colour remaps\<close>


text \<open>
  Modelled from the spec: \<^verbatim>\<open>Common::HashMap::clear\<close> is declared outside the excerpt. It
  is the operation \<^verbatim>\<open>resetArea\<close> and \<^verbatim>\<open>loadObjects\<close> call without an argument, of which
  the spec says that it clears all color remaps; its one parameter is a flag, which does
  not select an entry.
\<close>

definition clear :: "bool \<Rightarrow> ('k \<rightharpoonup> 'v) \<Rightarrow> ('k \<rightharpoonup> 'v)" where
  "clear shrinkArray m = Map.empty"

text \<open>\<^verbatim>\<open>unremapColor(int index)\<close> passes \<^verbatim>\<open>index\<close> to \<^verbatim>\<open>clear\<close>, where it is converted to the flag.\<close>

definition unremapColor :: "32 word \<Rightarrow> Area \<Rightarrow> Area" where
  "unremapColor index area = area\<lparr>colorRemaps := clear (index \<noteq> 0) (colorRemaps area)\<rparr>"

section \<open>Saving and loading\<close>





















section \<open>Sequences of calls and the consistency of the view\<close>

datatype AreaCall = AddObject "Object option" | RemoveObject "16 word"

fun runCalls :: "Area \<Rightarrow> AreaCall list \<Rightarrow> error + Area" where
  "runCalls area [] = Inr area"
| "runCalls area (AddObject objPtr # calls) =
     (case addObject objPtr area of Inl err \<Rightarrow> Inl err | Inr area' \<Rightarrow> runCalls area' calls)"
| "runCalls area (RemoveObject ident # calls) =
     (case removeObject ident area of Inl err \<Rightarrow> Inl err | Inr area' \<Rightarrow> runCalls area' calls)"

text \<open>
  The objects map is keyed by the objects' identifiers, the view holds objects of the map,
  every drawable object of the map is in the view, and no identifier occurs twice in the
  view.
\<close>

definition viewConsistent :: "Area \<Rightarrow> bool" where
  "viewConsistent area \<longleftrightarrow>
     (\<forall>k obj. objectsByID area k = Some obj \<longrightarrow> getObjectID obj = k)
     \<and> (\<forall>obj\<in>set (drawableObjects area). objectsByID area (getObjectID obj) = Some obj)
     \<and> (\<forall>k obj. objectsByID area k = Some obj \<and> isDrawable obj \<longrightarrow>
            obj \<in> set (drawableObjects area))
     \<and> distinct (map getObjectID (drawableObjects area))"

text \<open>Identifiers that read the same as \<^verbatim>\<open>uint16\<close> and as \<^verbatim>\<open>int16\<close>.\<close>

definition lowId :: "16 word \<Rightarrow> bool" where
  "lowId k \<longleftrightarrow> k < 0x8000"

section \<open>Concrete inputs\<close>

text \<open>
  An instance of the external parts with exact arithmetic, and a few boxes and areas, for
  evaluating the functions at concrete inputs.
\<close>

definition box :: "Vector3d \<Rightarrow> Vector3d \<Rightarrow> AABB" where
  "box lo hi = \<lparr>getMin = lo, getMax = hi,
      getSize = Vector3d (vx hi - vx lo) (vy hi - vy lo) (vz hi - vz lo), isValid = True\<rparr>"

text \<open>
  A stand-in for the bits of a float, exact on the multiples of \<open>1/256\<close> between
  \<open>-2\<^sup>2\<^sup>3\<close> and \<open>2\<^sup>2\<^sup>3\<close>: the value as a signed fixed-point number.
\<close>

definition fixedBits :: "real \<Rightarrow> 32 word" where
  "fixedBits x = word_of_int \<lfloor>x * 256\<rfloor>"

definition bitsFixed :: "32 word \<Rightarrow> real" where
  "bitsFixed w = of_int (sint w) / 256"

definition exactArithmetic :: Externals where
  "exactArithmetic =
     \<lparr>rnd = (\<lambda>x. x),
      isDestroyed = (\<lambda>obj. bit (getObjectFlags obj) 5),
      isInvisible = (\<lambda>obj. bit (getObjectFlags obj) 6),
      createPlayerAABB = (\<lambda>p h. box (Vector3d (vx p - 1) (vy p - of_int h) (vz p - 1))
                                       (Vector3d (vx p + 1) (vy p + 1) (vz p + 1))),
      intersectAABB = (\<lambda>r b. vx (getMin b) \<le> vx (getOrigin_ray r) \<and> vx (getOrigin_ray r) \<le> vx (getMax b)),
      collides = (\<lambda>origin sz b. vx (getMin b) \<le> vx origin + vx sz \<and> vx origin \<le> vx (getMax b)),
      normalize = (\<lambda>v. v),
      vlength = (\<lambda>v. sqrt ((vx v)\<^sup>2 + (vy v)\<^sup>2 + (vz v)\<^sup>2)),
      floatBits = fixedBits,
      bitsFloat = bitsFixed,
      setOrigin = (\<lambda>v obj. obj\<lparr>getOrigin := v,
          boundingBox := box v (Vector3d (vx v + vx (getSize_obj obj)) (vy v + vy (getSize_obj obj))
                                  (vz v + vz (getSize_obj obj)))\<rparr>),
      duplicate = (\<lambda>obj. obj)\<rparr>"

definition cube :: "16 word \<Rightarrow> 16 word \<Rightarrow> Vector3d \<Rightarrow> Vector3d \<Rightarrow> Object" where
  "cube ident fl org sz =
     \<lparr>getObjectID = ident, getType = kCubeType, getObjectFlags = fl, getOrigin = org,
      getSize_obj = sz,
      boundingBox = box org (Vector3d (vx org + vx sz) (vy org + vy sz) (vz org + vz sz)),
      isDrawable = True, isPlanar = False\<rparr>"

definition exampleArea :: "Object list \<Rightarrow> Area" where
  "exampleArea objs =
     \<lparr>areaID = 1, areaFlags = 0,
      objectsByID = map_of (map (\<lambda>obj. (getObjectID obj, obj)) objs),
      entrancesByID = Map.empty,
      drawableObjects = objs,
      addedObjects = Map.empty,
      colorRemaps = Map.empty,
      scale = 0, skyColor = 255, groundColor = 255, usualBackgroundColor = 255,
      underFireBackgroundColor = 255, inkColor = 255, paperColor = 255, gasPocketRadius = 0\<rparr>"

text \<open>
  A corridor along the x axis that leaves the player's box half a unit on either side,
  and a single wall five units ahead.
\<close>

definition frontWall :: Object where
  "frontWall = cube 1 0 (Vector3d (3/2) (-10) (-10)) (Vector3d 1 20 20)"

definition backWall :: Object where
  "backWall = cube 2 0 (Vector3d (-5/2) (-10) (-10)) (Vector3d 1 20 20)"

definition farWall :: Object where
  "farWall = cube 3 0 (Vector3d 6 (-10) (-10)) (Vector3d 1 20 20)"

definition playerBox :: AABB where
  "playerBox = createPlayerAABB exactArithmetic (Vector3d 0 0 0) 1"


text \<open>
  Single precision: rounding to the nearest binary32 value, ties to even (24 significant
  bits, smallest exponent \<open>-126\<close>; a result beyond the largest finite value is outside the
  model). \<open>singlePrecision\<close> is \<open>exactArithmetic\<close> with this rounding.
\<close>

definition roundToEven :: "real \<Rightarrow> int" where
  "roundToEven q =
     (let f = \<lfloor>q\<rfloor>; d = q - of_int f
      in if d < 1/2 then f else if 1/2 < d then f + 1 else if even f then f else f + 1)"

definition binary32 :: "real \<Rightarrow> real" where
  "binary32 x =
     (if x = 0 then 0
      else let ulp = 2 powi (max \<lfloor>log 2 \<bar>x\<bar>\<rfloor> (-126) - 23)
           in of_int (roundToEven (x / ulp)) * ulp)"

definition singlePrecision :: Externals where
  "singlePrecision = exactArithmetic\<lparr>rnd := binary32\<rparr>"

text \<open>The floor that \<^verbatim>\<open>addFloor\<close> builds: identifier 0, no flags, position and size as there.\<close>

definition floorObject :: Object where
  "floorObject = cube 0 0 (Vector3d (-4128) (-1) (-4128)) (Vector3d 16512 1 16512)"

text \<open>Objects for the ray queries: extents of length 10, 10 and 50, and a ray through all of them.\<close>

definition smallSwitch :: Object where
  "smallSwitch = cube 10 0 (Vector3d 0 0 0) (Vector3d 6 8 0)"

definition otherSwitch :: Object where
  "otherSwitch = cube 12 0 (Vector3d 0 0 0) (Vector3d 8 6 0)"

definition bigWall :: Object where
  "bigWall = cube 11 0 (Vector3d 0 0 0) (Vector3d 30 40 0)"

text \<open>An object whose extent has length 200000, above the initial cutoff of \<^verbatim>\<open>shootRay\<close>.\<close>

definition hugeWall :: Object where
  "hugeWall = cube 13 0 (Vector3d 0 0 0) (Vector3d 120000 160000 0)"

definition exampleRay :: Ray where
  "exampleRay = \<lparr>getOrigin_ray = Vector3d 1 0 0, getDirection = Vector3d 0 0 1\<rparr>"

definition forwardRay :: Ray where
  "forwardRay = \<lparr>getOrigin_ray = Vector3d 0 0 0, getDirection = Vector3d 1 0 0\<rparr>"

definition backwardRay :: Ray where
  "backwardRay = \<lparr>getOrigin_ray = Vector3d 0 0 0, getDirection = Vector3d (-1) 0 0\<rparr>"

text \<open>Two objects with the identifier 40000, and a planar object with a small identifier.\<close>

definition highObject :: Object where
  "highObject = cube 40000 0 (Vector3d 0 0 0) (Vector3d 1 1 1)"

definition highObject2 :: Object where
  "highObject2 = cube 40000 0 (Vector3d 5 0 0) (Vector3d 2 2 2)"

definition planarObject :: Object where
  "planarObject = (cube 1 0 (Vector3d 0 0 0) (Vector3d 4 0 4))\<lparr>isPlanar := True\<rparr>"





lemma resolveLoop_blocked:
  assumes "blockedPass e objs bb l n i"
  shows "resolveLoop e objs bb l (passPosition e objs bb l n i) i =
           (if i < 5 then resolveLoop e objs bb l (passPosition e objs bb l n (Suc i)) (Suc i)
            else Inl AssertionFailed)"
  using assms
  by (subst resolveLoop.simps) (auto simp: blockedPass_def split: prod.splits)

lemma resolveLoop_free:
  assumes "\<not> blockedPass e objs bb l n i"
  shows "resolveLoop e objs bb l (passPosition e objs bb l n i) i =
           Inr (passPosition e objs bb l n (Suc i))"
  using assms
  by (subst resolveLoop.simps) (auto simp: blockedPass_def split: prod.splits)

lemma resolveLoop_returns:
  assumes "\<not> blockedPass e objs bb l n k" and "\<forall>j. i \<le> j \<and> j < k \<longrightarrow> blockedPass e objs bb l n j"
    and "i \<le> k" and "k \<le> 5"
  shows "resolveLoop e objs bb l (passPosition e objs bb l n i) i =
           Inr (passPosition e objs bb l n (Suc k))"
  using assms(3,2)
proof (induction rule: inc_induct)
  case base
  show ?case using assms(1) by (rule resolveLoop_free)
next
  case (step m)
  have "blockedPass e objs bb l n m" using step.hyps step.prems by simp
  moreover have "m < 5" using step.hyps assms(4) by simp
  ultimately show ?case using step by (simp add: resolveLoop_blocked)
qed

lemma resolveLoop_aborts:
  assumes "\<forall>j. i \<le> j \<and> j \<le> 5 \<longrightarrow> blockedPass e objs bb l n j" and "i \<le> 5"
  shows "resolveLoop e objs bb l (passPosition e objs bb l n i) i = Inl AssertionFailed"
  using assms(2,1)
proof (induction rule: inc_induct)
  case base
  then show ?case by (simp add: resolveLoop_blocked)
next
  case (step m)
  then show ?case by (simp add: resolveLoop_blocked)
qed

subsection \<open>Evaluation at the concrete inputs\<close>

lemmas eval_defs = resolvePass_def sweepObject_def sweepAABB_def lineToPlane_def testFace_def
  dotProduct_def vsub_def vadd_def smul_def fadd_def fsub_def fmul_def fdiv_def zero_def
  between_def epsilon_def exactArithmetic_def box_def cube_def frontWall_def
  backWall_def farWall_def playerBox_def Let_def

lemma corridor_forward:
  "resolvePass exactArithmetic [frontWall, backWall] playerBox (Vector3d 0 0 0) (Vector3d 1 0 0)
     = (1/2, Vector3d (-1) 0 0)"
  by (simp add: eval_defs)

lemma corridor_backward:
  "resolvePass exactArithmetic [frontWall, backWall] playerBox (Vector3d 0 0 0) (Vector3d (-1) 0 0)
     = (1/2, Vector3d 1 0 0)"
  by (simp add: eval_defs)

lemma corridor_passPosition:
  "passPosition exactArithmetic [frontWall, backWall] playerBox (Vector3d 0 0 0) (Vector3d 1 0 0) k
     = (if even k then Vector3d 1 0 0 else Vector3d (-1) 0 0)"
  by (induction k) (simp_all add: corridor_forward corridor_backward)

lemma corridor_blocked:
  "blockedPass exactArithmetic [frontWall, backWall] playerBox (Vector3d 0 0 0) (Vector3d 1 0 0) k"
  by (simp add: blockedPass_def corridor_passPosition corridor_forward corridor_backward)

lemma farWall_first:
  "resolvePass exactArithmetic [farWall] playerBox (Vector3d 0 0 0) (Vector3d 10 0 0)
     = (1/2, Vector3d (7/2) 0 0)"
  by (simp add: eval_defs)

lemma farWall_second:
  "resolvePass exactArithmetic [farWall] playerBox (Vector3d 0 0 0) (Vector3d (7/2) 0 0)
     = (1, Vector3d (7/2) 0 0)"
  by (simp add: eval_defs)

lemma farWall_sweep:
  "foldl (sweepObject exactArithmetic playerBox (vsub exactArithmetic (Vector3d 10 0 0) (Vector3d 0 0 0)))
      (1, zero) [farWall] = (1/2, Vector3d (-1) 0 0)"
  by (simp add: eval_defs)

lemma farWall_from_new_position:
  "resolvePass exactArithmetic [farWall] playerBox (Vector3d (7/2) 0 0) (Vector3d 10 0 0)
     = (10/13, Vector3d 7 0 0)"
  by (simp add: eval_defs)

lemma farWall_from_new_position_second:
  "resolvePass exactArithmetic [farWall] playerBox (Vector3d (7/2) 0 0) (Vector3d 7 0 0)
     = (1, Vector3d 7 0 0)"
  by (simp add: eval_defs)

subsection \<open>Rounding to binary32 at concrete values\<close>

lemma floor_log2_eval:
  assumes "2 powi k \<le> x" and "x < 2 powi (k + 1)"
  shows "\<lfloor>log 2 x\<rfloor> = k"
proof -
  have "0 < (2::real) powi k" by simp
  with assms(1) have "0 < x" by linarith
  moreover have "(2::real) powr (real_of_int k) = 2 powi k"
    by (simp add: powr_real_of_int')
  moreover have "(2::real) powr (real_of_int k + 1) = 2 powi (k + 1)"
    using powr_real_of_int' [of "2::real" "k + 1"] by simp
  ultimately show ?thesis
    using assms by (simp add: floor_log_eq_powr_iff)
qed

lemma roundToEven_of_int: "roundToEven (of_int k) = k"
  by (simp add: roundToEven_def)

lemma binary32_0: "binary32 0 = 0"
  by (simp add: binary32_def)

lemma binary32_1: "binary32 1 = 1"
proof -
  have "\<lfloor>log 2 \<bar>1::real\<bar>\<rfloor> = 0" by simp
  moreover have "(2::real) powi (-23) = 1 / 8388608" by (simp add: power_int_def power_divide)
  moreover have "roundToEven 8388608 = 8388608" by (simp add: roundToEven_def)
  ultimately show ?thesis by (simp add: binary32_def)
qed

lemma binary32_of_int:
  assumes "\<bar>n\<bar> < 2 ^ 24"
  shows "binary32 (of_int n) = of_int n"
proof (cases "n = 0")
  case True
  then show ?thesis by (simp add: binary32_def)
next
  case False
  define x :: real where "x = \<bar>of_int n\<bar>"
  define ex where "ex = \<lfloor>log 2 x\<rfloor>"
  have x1: "1 \<le> x" using False by (simp add: x_def flip: of_int_abs)
  have x2: "x < 2 ^ 24" using assms unfolding x_def
    by (metis of_int_abs of_int_less_numeral_power_cancel_iff)
  have e0: "0 \<le> ex" using x1 by (simp add: ex_def)
  have "log 2 x < 24" using x1 x2 by (simp add: log_less_iff)
  then have e1: "ex \<le> 23" unfolding ex_def by linarith
  define d where "d = nat (23 - ex)"
  have p: "(2::real) powi (ex - 23) = 1 / 2 ^ d"
    using e1 by (simp add: power_int_def d_def power_divide)
  have r: "roundToEven (of_int n * 2 ^ d) = n * 2 ^ d"
    using roundToEven_of_int [of "n * 2 ^ d"] by simp
  have m: "max ex (-126) = ex" using e0 by simp
  show ?thesis
    using False by (simp add: binary32_def Let_def r m p flip: ex_def x_def)
qed

lemma binary32_numeral:
  "numeral k < (2::int) ^ 24 \<Longrightarrow> binary32 (numeral k) = numeral k"
  "numeral k < (2::int) ^ 24 \<Longrightarrow> binary32 (- numeral k) = - numeral k"
  using binary32_of_int [of "numeral k"] binary32_of_int [of "- numeral k"] by simp_all

text \<open>
  \<open>(1 + 2\<^sup>-\<^sup>2\<^sup>3) - 5\<close> lies halfway between the neighbours \<open>-4\<close> and \<open>-(4 - 2\<^sup>-\<^sup>2\<^sup>2)\<close> and
  rounds to the even one, \<open>-4\<close>.
\<close>

lemma binary32_tie: "binary32 (- (33554431 / 8388608)) = -4"
proof -
  have "\<lfloor>log 2 (33554431 / 8388608 :: real)\<rfloor> = 1"
    by (rule floor_log2_eval) (simp_all add: power_int_def)
  moreover have "(2::real) powi (-22) = 1 / 4194304" by (simp add: power_int_def power_divide)
  moreover have "roundToEven (- (33554431 / 2)) = - 16777216" by (simp add: roundToEven_def)
  ultimately show ?thesis by (simp add: binary32_def)
qed

lemma binary32_half: "binary32 (2067 / 2) = 2067 / 2"
proof -
  have "\<lfloor>log 2 (2067 / 2 :: real)\<rfloor> = 10"
    by (rule floor_log2_eval) (simp_all add: power_int_def)
  moreover have "(2::real) powi (-13) = 1 / 8192" by (simp add: power_int_def power_divide)
  moreover have "roundToEven 8466432 = 8466432" by (simp add: roundToEven_def)
  ultimately show ?thesis by (simp add: binary32_def)
qed

lemma floor_sweep:
  "sweepAABB singlePrecision (createPlayerAABB singlePrecision (Vector3d 5 2 0) 1)
      (boundingBox floorObject)
      (vsub singlePrecision (Vector3d (8388609 / 8388608) 2 0) (Vector3d 5 2 0)) zero
   = (1, zero)"
  by (simp add: eval_defs singlePrecision_def floorObject_def
      binary32_0 binary32_tie binary32_half binary32_numeral)

subsection \<open>A pass without a hit\<close>

lemma foldl_sweepObject_free:
  assumes "\<forall>obj\<in>set objs. \<not> isDestroyed e obj \<and> \<not> isInvisible e obj \<longrightarrow>
             fst (sweepAABB e bb (boundingBox obj) direction zero) = 1"
  shows "foldl (sweepObject e bb direction) (1, zero) objs = (1, zero)"
  using assms
  by (induction objs) (auto simp: sweepObject_def split: prod.splits)

subsection \<open>The six faces of a sweep\<close>












subsection \<open>The selection of \<^verbatim>\<open>shootRay\<close>\<close>

lemma lastSmallest_here:
  assumes "rayHits e ray x" and "vlength e (getSize_obj x) \<le> cutoff"
    and "\<forall>q\<in>set xs. rayHits e ray q \<longrightarrow> vlength e (getSize_obj x) < vlength e (getSize_obj q)"
  shows "lastSmallest e ray cutoff (x # xs) x"
  unfolding lastSmallest_def
  using assms by (intro exI [of _ "[]"] exI [of _ xs]) simp

lemma lastSmallest_later:
  assumes "lastSmallest e ray c xs obj"
    and "rayHits e ray x \<longrightarrow> vlength e (getSize_obj obj) \<le> vlength e (getSize_obj x)"
    and "vlength e (getSize_obj obj) \<le> cutoff"
  shows "lastSmallest e ray cutoff (x # xs) obj"
proof -
  from assms(1) obtain pre post where d: "xs = pre @ obj # post" "rayHits e ray obj"
      "\<forall>q\<in>set pre. rayHits e ray q \<longrightarrow> vlength e (getSize_obj obj) \<le> vlength e (getSize_obj q)"
      "\<forall>q\<in>set post. rayHits e ray q \<longrightarrow> vlength e (getSize_obj obj) < vlength e (getSize_obj q)"
    unfolding lastSmallest_def by blast
  show ?thesis
    unfolding lastSmallest_def
    using d assms(2,3) by (intro exI [of _ "x # pre"] exI [of _ post]) simp
qed

lemma foldl_shootStep_none:
  assumes "\<forall>obj\<in>set objs. \<not> (rayHits e ray obj \<and> vlength e (getSize_obj obj) \<le> sz)"
  shows "foldl (shootStep e ray) (sz, c) objs = (sz, c)"
  using assms
  by (induction objs) (auto simp: shootStep_def rayHits_def Let_def)

lemma foldl_shootStep_some:
  assumes "\<exists>obj\<in>set objs. rayHits e ray obj \<and> vlength e (getSize_obj obj) \<le> sz"
  shows "\<exists>obj. foldl (shootStep e ray) (sz, c) objs = (vlength e (getSize_obj obj), Some obj)
               \<and> lastSmallest e ray sz objs obj"
  using assms
proof (induction objs arbitrary: sz c)
  case Nil
  then show ?case by simp
next
  case (Cons x xs)
  let ?len = "\<lambda>obj. vlength e (getSize_obj obj)"
  show ?case
  proof (cases "rayHits e ray x \<and> ?len x \<le> sz")
    case True
    then have step: "shootStep e ray (sz, c) x = (?len x, Some x)"
      by (simp add: shootStep_def rayHits_def Let_def)
    show ?thesis
    proof (cases "\<exists>obj\<in>set xs. rayHits e ray obj \<and> ?len obj \<le> ?len x")
      case False
      then have "foldl (shootStep e ray) (?len x, Some x) xs = (?len x, Some x)"
        by (intro foldl_shootStep_none) blast
      moreover have "lastSmallest e ray sz (x # xs) x"
        using True False by (intro lastSmallest_here) (auto simp: not_le)
      ultimately show ?thesis using step by auto
    next
      case ex: True
      from Cons.IH [OF ex, of "Some x"] obtain obj where
        o: "foldl (shootStep e ray) (?len x, Some x) xs = (?len obj, Some obj)"
           "lastSmallest e ray (?len x) xs obj"
        by blast
      from o(2) have "?len obj \<le> ?len x" by (auto simp: lastSmallest_def)
      with o(2) True have "lastSmallest e ray sz (x # xs) obj"
        by (intro lastSmallest_later [of e ray "?len x"]) auto
      with o(1) step show ?thesis by auto
    qed
  next
    case nx: False
    then have step: "shootStep e ray (sz, c) x = (sz, c)"
      by (auto simp: shootStep_def rayHits_def Let_def)
    from nx Cons.prems have ex: "\<exists>obj\<in>set xs. rayHits e ray obj \<and> ?len obj \<le> sz" by auto
    from Cons.IH [OF ex, of c] obtain obj where
      o: "foldl (shootStep e ray) (sz, c) xs = (?len obj, Some obj)"
         "lastSmallest e ray sz xs obj"
      by blast
    from o(2) have le: "?len obj \<le> sz" by (auto simp: lastSmallest_def)
    with nx have "rayHits e ray x \<longrightarrow> ?len obj \<le> ?len x" by auto
    with o(2) le have "lastSmallest e ray sz (x # xs) obj"
      by (intro lastSmallest_later [of e ray sz]) auto
    with o(1) step show ?thesis by auto
  qed
qed

lemma sqrt_100: "sqrt 100 = 10"
  by (rule real_sqrt_unique) simp_all

lemma sqrt_2500: "sqrt 2500 = 50"
  by (rule real_sqrt_unique) simp_all

lemmas ray_defs = shootRay_def shootStep_def rayHits_def exampleArea_def exactArithmetic_def
  smallSwitch_def otherSwitch_def bigWall_def exampleRay_def cube_def box_def Let_def
  sqrt_100 sqrt_2500

lemma shootRay_small_big:
  "shootRay exactArithmetic (exampleArea [bigWall, smallSwitch]) exampleRay = Some smallSwitch"
  "shootRay exactArithmetic (exampleArea [smallSwitch, bigWall]) exampleRay = Some smallSwitch"
  "shootRay exactArithmetic (exampleArea [smallSwitch, otherSwitch]) exampleRay = Some otherSwitch"
  "shootRay exactArithmetic (exampleArea []) exampleRay = None"
  by (simp_all add: ray_defs)

lemma switches_hit:
  "rayHits exactArithmetic exampleRay smallSwitch"
  "rayHits exactArithmetic exampleRay otherSwitch"
  "vlength exactArithmetic (getSize_obj smallSwitch) = 10"
  "vlength exactArithmetic (getSize_obj otherSwitch) = 10"
  "smallSwitch \<noteq> otherSwitch"
  by (simp_all add: ray_defs)

text \<open>An object that the ray hits but whose length exceeds the cutoff is not returned.\<close>

lemma sqrt_40000000000: "sqrt 40000000000 = 200000"
  by (rule real_sqrt_unique) simp_all

lemma shootRay_beyond_cutoff:
  "rayHits exactArithmetic exampleRay hugeWall"
  "vlength exactArithmetic (getSize_obj hugeWall) = 200000"
  "shootRay exactArithmetic (exampleArea [hugeWall]) exampleRay = None"
  by (simp_all add: ray_defs hugeWall_def sqrt_40000000000)

subsection \<open>Line of sight at concrete inputs\<close>

lemma sight_examples:
  "checkInSight exactArithmetic (exampleArea [farWall]) forwardRay 30 = False"
  "checkInSight exactArithmetic (exampleArea [farWall]) backwardRay 1000 = True"
  "blocksSight exactArithmetic (sightSample exactArithmetic forwardRay 30 2)
     (sightProbeSize exactArithmetic 30) farWall"
  by (simp_all add: checkInSight_def blocksSight_def sightSample_def sightProbeSize_def
      exampleArea_def exactArithmetic_def farWall_def cube_def box_def forwardRay_def
      backwardRay_def vadd_def smul_def fadd_def fmul_def fdiv_def Let_def upto.simps)

subsection \<open>Adding objects at concrete inputs\<close>

lemma addObject_examples:
  "addObject (Some planarObject) (exampleArea [farWall])
     = Inr ((exampleArea [farWall])
              \<lparr>objectsByID := (objectsByID (exampleArea [farWall]))(1 \<mapsto> planarObject),
               drawableObjects := [planarObject, farWall],
               addedObjects := [1 \<mapsto> planarObject]\<rparr>)"
  "addObject (Some farWall) (exampleArea [farWall]) = Inl AssertionFailed"
  "objectsByID (exampleArea [farWall]) (getObjectID planarObject) = None"
  "objectsByID (exampleArea [farWall]) (getObjectID farWall) \<noteq> None"
  by (simp_all add: addObject_def Let_def exampleArea_def planarObject_def farWall_def cube_def)

subsection \<open>Consistency of the view for identifiers below 32768\<close>

lemma set_insertObject: "set (insertObject x xs) = insert x (set xs)"
  by (induction xs) auto

lemma set_sortObjects: "set (sortObjects xs) = set xs"
  unfolding sortObjects_def by (induction xs) (simp_all add: set_insertObject)

lemma distinct_insertObject:
  "distinct (map f (insertObject x xs)) \<longleftrightarrow> f x \<notin> f ` set xs \<and> distinct (map f xs)"
  by (induction xs) (auto simp: set_insertObject)

lemma distinct_sortObjects: "distinct (map f (sortObjects xs)) \<longleftrightarrow> distinct (map f xs)"
  unfolding sortObjects_def
proof (induction xs)
  case Nil
  show ?case by simp
next
  case (Cons x xs)
  have "set (foldr insertObject xs []) = set xs"
    using set_sortObjects [of xs] by (simp add: sortObjects_def)
  with Cons show ?case by (simp add: distinct_insertObject)
qed

lemma lowId_sint:
  assumes "lowId k"
  shows "sint k = uint k"
proof -
  from assms have "uint k < 2 ^ 15"
    by (simp add: lowId_def word_less_alt)
  moreover have "- (2 ^ 15) \<le> uint k"
    by (rule order_trans [of _ 0]) simp_all
  ultimately have "signed_take_bit 15 (uint k) = uint k"
    by (rule signed_take_bit_int_eq_self [rotated])
  then show ?thesis by (simp add: sint_uint)
qed

lemma removeFirst_absent: "\<forall>x\<in>set xs. \<not> p x \<Longrightarrow> removeFirst p xs = xs"
  by (induction xs) auto

lemma set_removeFirst:
  assumes "distinct (map f xs)"
  shows "set (removeFirst (\<lambda>x. f x = k) xs) = {x \<in> set xs. f x \<noteq> k}"
  using assms by (induction xs) (auto simp: image_iff)

lemma distinct_removeFirst:
  "distinct (map f xs) \<Longrightarrow> distinct (map f (removeFirst p xs))"
proof (induction xs)
  case Nil
  show ?case by simp
next
  case (Cons x xs)
  have sub: "set (removeFirst p xs) \<subseteq> set xs" for xs
    by (induction xs) auto
  from Cons show ?case using sub [of xs] by auto
qed

lemma viewConsistent_addObject:
  assumes "viewConsistent area" and "addObject objPtr area = Inr area'"
  shows "viewConsistent area'"
proof -
  from assms(2) obtain obj where o: "objPtr = Some obj" "objectsByID area (getObjectID obj) = None"
      "area' = area\<lparr>objectsByID := (objectsByID area)(getObjectID obj \<mapsto> obj),
                        drawableObjects := (if isDrawable obj then obj # drawableObjects area
                                            else drawableObjects area),
                        addedObjects := (addedObjects area)(getObjectID obj \<mapsto> obj)\<rparr>"
    by (auto simp: addObject_def Let_def split: option.splits if_splits)
  have new: "getObjectID obj \<noteq> getObjectID x" if "x \<in> set (drawableObjects area)" for x
  proof
    assume "getObjectID obj = getObjectID x"
    moreover from assms(1) that have "objectsByID area (getObjectID x) = Some x"
      by (simp add: viewConsistent_def)
    ultimately show False using o(2) by simp
  qed
  have m: "objectsByID area' = (objectsByID area)(getObjectID obj \<mapsto> obj)"
    and v: "drawableObjects area' =
             (if isDrawable obj then obj # drawableObjects area else drawableObjects area)"
    by (simp_all add: o(3))
  have 1: "getObjectID x = k" if "objectsByID area' k = Some x" for k x
    using that assms(1) by (auto simp: m viewConsistent_def split: if_splits)
  have 2: "objectsByID area' (getObjectID x) = Some x" if "x \<in> set (drawableObjects area')" for x
  proof (cases "x = obj")
    case True
    then show ?thesis by (simp add: m)
  next
    case False
    with that have x: "x \<in> set (drawableObjects area)" by (auto simp: v split: if_splits)
    with assms(1) have "objectsByID area (getObjectID x) = Some x"
      by (simp add: viewConsistent_def)
    with new [OF x] show ?thesis by (simp add: m)
  qed
  have 3: "x \<in> set (drawableObjects area')"
    if "objectsByID area' k = Some x" "isDrawable x" for k x
  proof (cases "k = getObjectID obj")
    case True
    with that show ?thesis by (simp add: m v)
  next
    case False
    with that(1) have "objectsByID area k = Some x" by (simp add: m)
    with assms(1) that(2) have "x \<in> set (drawableObjects area)"
      by (auto simp: viewConsistent_def)
    then show ?thesis by (simp add: v)
  qed
  from assms(1) have "distinct (map getObjectID (drawableObjects area))"
    by (simp add: viewConsistent_def)
  with new have 4: "distinct (map getObjectID (drawableObjects area'))"
    by (auto simp: v)
  from 1 2 3 4 show ?thesis
    unfolding viewConsistent_def by blast
qed

lemma viewConsistent_removeObject:
  assumes "viewConsistent area" and "removeObject ident area = Inr area'"
    and "\<forall>k\<in>dom (objectsByID area). lowId k"
  shows "viewConsistent area'"
proof -
  from assms(2) have p: "objectsByID area ident \<noteq> None"
    and a': "area' = area\<lparr>drawableObjects :=
                          removeFirst (\<lambda>obj. uint (getObjectID obj) = sint ident)
                            (drawableObjects area),
                        objectsByID := (objectsByID area)(ident := None),
                        addedObjects := (addedObjects area)(ident := None)\<rparr>"
    by (auto simp: removeObject_def Let_def split: if_splits)
  from p assms(3) have "lowId ident" by blast
  then have "sint ident = uint ident" by (rule lowId_sint)
  then have eq: "(\<lambda>obj. uint (getObjectID obj) = sint ident) = (\<lambda>obj. getObjectID obj = ident)"
    by (auto simp: fun_eq_iff word_uint_eq_iff)
  from assms(1) have d: "distinct (map getObjectID (drawableObjects area))"
    by (simp add: viewConsistent_def)
  let ?view = "removeFirst (\<lambda>obj. getObjectID obj = ident) (drawableObjects area)"
  have s: "set ?view = {x \<in> set (drawableObjects area). getObjectID x \<noteq> ident}"
    by (rule set_removeFirst [OF d])
  have d': "distinct (map getObjectID ?view)"
    by (rule distinct_removeFirst [OF d])
  have m: "objectsByID area' = (objectsByID area)(ident := None)"
    and v: "drawableObjects area' = ?view"
    by (simp_all add: a' eq)
  have 1: "getObjectID obj = k" if "objectsByID area' k = Some obj" for k obj
    using that assms(1) by (auto simp: m viewConsistent_def split: if_splits)
  have 2: "objectsByID area' (getObjectID obj) = Some obj" if "obj \<in> set (drawableObjects area')" for obj
    using that assms(1) by (auto simp: m v s viewConsistent_def)
  have 3: "obj \<in> set (drawableObjects area')"
    if "objectsByID area' k = Some obj" "isDrawable obj" for k obj
  proof -
    from that(1) have k: "k \<noteq> ident" "objectsByID area k = Some obj"
      by (auto simp: m split: if_splits)
    with assms(1) that(2) have "obj \<in> set (drawableObjects area)" "getObjectID obj = k"
      by (auto simp: viewConsistent_def)
    with k show ?thesis by (simp add: v s)
  qed
  from 1 2 3 d' show ?thesis
    unfolding viewConsistent_def v by blast
qed

lemma viewConsistent_newArea:
  assumes "distinct (map fst entries)" and "\<forall>(k, obj)\<in>set entries. getObjectID obj = k"
  shows "viewConsistent (newArea a f entries ents)"
proof -
  let ?view = "sortObjects (filter isDrawable (map snd entries))"
  have ids: "map getObjectID (map snd entries) = map fst entries"
    using assms(2) by (induction entries) auto
  have s: "set ?view = {obj \<in> snd ` set entries. isDrawable obj}"
    by (auto simp: set_sortObjects)
  have 1: "getObjectID obj = k" if "map_of entries k = Some obj" for k obj
    using map_of_SomeD [OF that] assms(2) by auto
  have 2: "map_of entries (getObjectID obj) = Some obj" if "obj \<in> set ?view" for obj
  proof -
    from that obtain k where "(k, obj) \<in> set entries" by (auto simp: s)
    moreover with assms(2) have "getObjectID obj = k" by auto
    ultimately show ?thesis using assms(1) by simp
  qed
  have 3: "obj \<in> set ?view" if "map_of entries k = Some obj" "isDrawable obj" for k obj
    using map_of_SomeD [OF that(1)] that(2) by (force simp: s)
  have "distinct (map getObjectID (map snd entries))"
    using assms(1) by (simp only: ids)
  then have "distinct (map getObjectID (filter isDrawable (map snd entries)))"
    by (rule distinct_map_filter)
  then have 4: "distinct (map getObjectID ?view)"
    by (simp only: distinct_sortObjects)
  have m: "objectsByID (newArea a f entries ents) = map_of entries"
    and v: "drawableObjects (newArea a f entries ents) = ?view"
    by (simp_all add: newArea_def)
  from 1 2 3 4 show ?thesis
    unfolding viewConsistent_def m v by blast
qed

lemma dom_addObject:
  "addObject (Some obj) area = Inr area' \<Longrightarrow>
     dom (objectsByID area') = insert (getObjectID obj) (dom (objectsByID area))"
  by (auto simp: addObject_def Let_def split: if_splits)

lemma dom_removeObject:
  "removeObject ident area = Inr area' \<Longrightarrow> dom (objectsByID area') \<subseteq> dom (objectsByID area)"
  by (auto simp: removeObject_def Let_def split: if_splits)

lemma viewConsistent_runCalls:
  assumes "runCalls area calls = Inr area'"
    and "viewConsistent area" and "\<forall>k\<in>dom (objectsByID area). lowId k"
    and "\<forall>obj. AddObject (Some obj) \<in> set calls \<longrightarrow> lowId (getObjectID obj)"
  shows "viewConsistent area' \<and> (\<forall>k\<in>dom (objectsByID area'). lowId k)"
  using assms
proof (induction area calls rule: runCalls.induct)
  case (1 area)
  then show ?case by simp
next
  case (2 area objPtr calls)
  from "2.prems"(1) obtain area1 where a: "addObject objPtr area = Inr area1"
      "runCalls area1 calls = Inr area'"
    by (auto split: sum.splits)
  from a(1) obtain obj where o: "objPtr = Some obj"
    by (auto simp: addObject_def split: option.splits)
  have "viewConsistent area1"
    using "2.prems"(2) a(1) by (rule viewConsistent_addObject)
  moreover have "\<forall>k\<in>dom (objectsByID area1). lowId k"
    using dom_addObject [OF a(1) [unfolded o]] "2.prems"(3,4) o by auto
  ultimately show ?case
    using "2.IH" [OF a(1) a(2)] "2.prems"(4) by auto
next
  case (3 area ident calls)
  from "3.prems"(1) obtain area1 where a: "removeObject ident area = Inr area1"
      "runCalls area1 calls = Inr area'"
    by (auto split: sum.splits)
  have "viewConsistent area1"
    using "3.prems"(2) a(1) "3.prems"(3) by (rule viewConsistent_removeObject)
  moreover have "\<forall>k\<in>dom (objectsByID area1). lowId k"
    using dom_removeObject [OF a(1)] "3.prems"(3) by blast
  ultimately show ?case
    using "3.IH" [OF a(1) a(2)] "3.prems"(4) by auto
qed

lemma count_list_distinct: "distinct xs \<Longrightarrow> x \<in> set xs \<Longrightarrow> count_list xs x = 1"
  by (induction xs) auto

lemma filter_distinct_key:
  "distinct (map f xs) \<Longrightarrow> x \<in> set xs \<Longrightarrow> filter (\<lambda>y. f y = f x) xs = [x]"
  by (induction xs) (auto simp: image_iff filter_empty_conv)

text \<open>
  For identifiers below 32768, the view and the objects map stay consistent from the
  constructor through every sequence of \<^verbatim>\<open>addObject\<close> and \<^verbatim>\<open>removeObject\<close> calls that
  pass their assertions.
\<close>

lemma view_consistent_low_ids:
  assumes "distinct (map fst entries)"
    and "\<forall>(k, obj)\<in>set entries. getObjectID obj = k \<and> lowId k"
    and "\<forall>obj. AddObject (Some obj) \<in> set calls \<longrightarrow> lowId (getObjectID obj)"
    and "runCalls (newArea a f entries ents) calls = Inr area'"
  shows "(\<forall>obj\<in>set (drawableObjects area'). getObjectID obj \<in> dom (objectsByID area'))
         \<and> (\<forall>k obj. objectsByID area' k = Some obj \<and> isDrawable obj \<longrightarrow>
                count_list (drawableObjects area') obj = 1
                \<and> filter (\<lambda>x. getObjectID x = k) (drawableObjects area') = [obj])"
proof -
  have "viewConsistent (newArea a f entries ents)"
    using assms(1,2) by (intro viewConsistent_newArea) auto
  moreover have "\<forall>k\<in>dom (objectsByID (newArea a f entries ents)). lowId k"
    using assms(2) by (auto simp: newArea_def dest!: map_of_SomeD)
  ultimately have v: "viewConsistent area'"
    using viewConsistent_runCalls [OF assms(4)] assms(3) by blast
  then have d: "distinct (map getObjectID (drawableObjects area'))"
    by (simp add: viewConsistent_def)
  then have d': "distinct (drawableObjects area')"
    by (simp add: distinct_map)
  have 1: "getObjectID obj \<in> dom (objectsByID area')" if "obj \<in> set (drawableObjects area')" for obj
    using v that by (auto simp: viewConsistent_def)
  have 2: "count_list (drawableObjects area') obj = 1
           \<and> filter (\<lambda>x. getObjectID x = k) (drawableObjects area') = [obj]"
    if "objectsByID area' k = Some obj" "isDrawable obj" for k obj
  proof -
    from v that have "obj \<in> set (drawableObjects area')" "getObjectID obj = k"
      by (auto simp: viewConsistent_def)
    with d d' show ?thesis
      using filter_distinct_key [of getObjectID "drawableObjects area'" obj]
      by (simp add: count_list_distinct)
  qed
  from 1 2 show ?thesis by blast
qed

subsection \<open>Streams\<close>







subsection \<open>Loading what was saved\<close>






















section \<open>Claims\<close>

text \<open>
  C1. \<^verbatim>\<open>resolveCollisions\<close> terminates on every input: the loop is a function with a
  decreasing measure, and its result is determined by the first of the passes 0 to 5
  that is not blocked. If pass \<open>k \<le> 5\<close> is the first one with a fraction of at least 1,
  the position computed by that pass is returned (after \<open>k\<close> retries, at most 5); if all
  six passes are blocked, the sixth one fails the assertion and no position is returned.
\<close>

theorem resolveCollisions_terminates:
  fixes e area lastPosition newPosition playerHeight
  defines "objs \<equiv> drawableObjects area"
    and "bb \<equiv> createPlayerAABB e lastPosition playerHeight"
  shows "(\<exists>k\<le>5. (\<forall>j<k. blockedPass e objs bb lastPosition newPosition j)
             \<and> \<not> blockedPass e objs bb lastPosition newPosition k
             \<and> resolveCollisions e area lastPosition newPosition playerHeight
                 = Inr (passPosition e objs bb lastPosition newPosition (Suc k)))
         \<or> ((\<forall>k\<le>5. blockedPass e objs bb lastPosition newPosition k)
             \<and> resolveCollisions e area lastPosition newPosition playerHeight
                 = Inl AssertionFailed)"
proof (cases "\<exists>k\<le>5. \<not> blockedPass e objs bb lastPosition newPosition k")
  case True
  define k where "k = (LEAST k. k \<le> 5 \<and> \<not> blockedPass e objs bb lastPosition newPosition k)"
  from True have ex: "\<exists>k. k \<le> 5 \<and> \<not> blockedPass e objs bb lastPosition newPosition k" by blast
  have k: "k \<le> 5" "\<not> blockedPass e objs bb lastPosition newPosition k"
    using LeastI_ex [OF ex] by (simp_all add: k_def)
  have least: "blockedPass e objs bb lastPosition newPosition j" if "j < k" for j
    using not_less_Least [of j "\<lambda>k. k \<le> 5 \<and> \<not> blockedPass e objs bb lastPosition newPosition k"] that k(1)
    by (auto simp: k_def)
  have "resolveLoop e objs bb lastPosition (passPosition e objs bb lastPosition newPosition 0) 0
          = Inr (passPosition e objs bb lastPosition newPosition (Suc k))"
    by (rule resolveLoop_returns) (use k least in auto)
  then have "resolveCollisions e area lastPosition newPosition playerHeight
          = Inr (passPosition e objs bb lastPosition newPosition (Suc k))"
    by (simp add: resolveCollisions_def objs_def bb_def)
  with k least show ?thesis by blast
next
  case False
  then have all: "\<forall>k\<le>5. blockedPass e objs bb lastPosition newPosition k" by blast
  then have "resolveLoop e objs bb lastPosition (passPosition e objs bb lastPosition newPosition 0) 0
          = Inl AssertionFailed"
    by (intro resolveLoop_aborts) auto
  then have "resolveCollisions e area lastPosition newPosition playerHeight = Inl AssertionFailed"
    by (simp add: resolveCollisions_def objs_def bb_def)
  with all show ?thesis by blast
qed

theorem resolveCollisions_terminates_witness:
  "resolveCollisions exactArithmetic (exampleArea [frontWall, backWall])
       (Vector3d 0 0 0) (Vector3d 1 0 0) 1 = Inl AssertionFailed
   \<and> resolveCollisions exactArithmetic (exampleArea [farWall])
       (Vector3d 0 0 0) (Vector3d 10 0 0) 1 = Inr (Vector3d (7/2) 0 0)"
proof
  have bb: "createPlayerAABB exactArithmetic (Vector3d 0 0 0) 1 = playerBox"
    by (simp add: playerBox_def)
  show "resolveCollisions exactArithmetic (exampleArea [frontWall, backWall])
       (Vector3d 0 0 0) (Vector3d 1 0 0) 1 = Inl AssertionFailed"
    using resolveCollisions_terminates
      [where e = exactArithmetic and area = "exampleArea [frontWall, backWall]"
         and lastPosition = "Vector3d 0 0 0" and newPosition = "Vector3d 1 0 0"
         and playerHeight = 1]
    by (simp add: bb exampleArea_def corridor_blocked)
  have b0: "blockedPass exactArithmetic [farWall] playerBox (Vector3d 0 0 0) (Vector3d 10 0 0) 0"
    by (simp add: blockedPass_def farWall_first)
  have b1: "\<not> blockedPass exactArithmetic [farWall] playerBox (Vector3d 0 0 0) (Vector3d 10 0 0) 1"
    by (simp add: blockedPass_def farWall_first farWall_second)
  have p2: "passPosition exactArithmetic [farWall] playerBox (Vector3d 0 0 0) (Vector3d 10 0 0) (Suc (Suc 0))
      = Vector3d (7/2) 0 0"
    by (simp add: farWall_first farWall_second)
  from resolveCollisions_terminates
      [where e = exactArithmetic and area = "exampleArea [farWall]"
         and lastPosition = "Vector3d 0 0 0" and newPosition = "Vector3d 10 0 0"
         and playerHeight = 1]
  obtain k where k: "k \<le> 5"
      "\<forall>j<k. blockedPass exactArithmetic [farWall] playerBox (Vector3d 0 0 0) (Vector3d 10 0 0) j"
      "\<not> blockedPass exactArithmetic [farWall] playerBox (Vector3d 0 0 0) (Vector3d 10 0 0) k"
      "resolveCollisions exactArithmetic (exampleArea [farWall]) (Vector3d 0 0 0) (Vector3d 10 0 0) 1
         = Inr (passPosition exactArithmetic [farWall] playerBox (Vector3d 0 0 0) (Vector3d 10 0 0) (Suc k))"
    using b1 by (auto simp: bb exampleArea_def)
  have "k = 1"
  proof (rule ccontr)
    assume "k \<noteq> 1"
    then consider "k = 0" | "1 < k" by linarith
    then show False
    proof cases
      case 1 with k(3) b0 show False by simp
    next
      case 2 with k(2) b1 show False by blast
    qed
  qed
  with k(4) p2 show "resolveCollisions exactArithmetic (exampleArea [farWall])
       (Vector3d 0 0 0) (Vector3d 10 0 0) 1 = Inr (Vector3d (7/2) 0 0)"
    by simp
qed

text \<open>
  C2 (as amended). After a blocked pass (smallest fraction \<open>distance < 1\<close>, with its normal)
  the position becomes \<open>lastPosition + distance * direction + 1.5 * normal\<close>, and, unless
  this was the sixth blocked pass, the next pass sweeps again from the same, unchanged
  \<open>lastPosition\<close> (and the same player box) towards that new position: the new position is
  the next pass's target, and the desired position of the call is not used again.
\<close>

theorem resolveLoop_next_pass:
  assumes "foldl (sweepObject e bb (vsub e position lastPosition)) (1, zero) objs = (distance, normal)"
    and "distance < 1"
  shows "resolveLoop e objs bb lastPosition position i =
           (if i < 5
            then resolveLoop e objs bb lastPosition
                   (vadd e (vadd e lastPosition (smul e distance (vsub e position lastPosition)))
                      (smul e (3/2) normal))
                   (Suc i)
            else Inl AssertionFailed)"
  using assms
  by (subst resolveLoop.simps) (simp add: resolvePass_def Let_def epsilon_def)

theorem resolveLoop_next_pass_witness:
  "foldl (sweepObject exactArithmetic playerBox (vsub exactArithmetic (Vector3d 10 0 0) (Vector3d 0 0 0)))
      (1, zero) [farWall] = (1/2, Vector3d (-1) 0 0)
   \<and> (1/2 :: real) < 1
   \<and> resolveLoop exactArithmetic [farWall] playerBox (Vector3d 0 0 0) (Vector3d 10 0 0) 0
       = resolveLoop exactArithmetic [farWall] playerBox (Vector3d 0 0 0) (Vector3d (7/2) 0 0) (Suc 0)"
  using resolveLoop_next_pass [where i = 0, OF farWall_sweep] farWall_sweep
  by (simp add: vadd_def smul_def vsub_def fadd_def fsub_def fmul_def exactArithmetic_def)

text \<open>
  The claim as stated fails: with a wall five units ahead and a desired position ten units
  ahead, the first pass is blocked and moves the position to \<open>x = 3.5\<close>. The code then
  sweeps from the old \<open>lastPosition\<close> to \<open>3.5\<close> and returns \<open>3.5\<close>; a pass that used
  \<open>3.5\<close> as the new \<open>lastPosition\<close> and the desired position as its target would go on
  to \<open>x = 7\<close>.
\<close>

theorem resolveLoop_next_pass_counterexample:
  "fst (resolvePass exactArithmetic [farWall] playerBox (Vector3d 0 0 0) (Vector3d 10 0 0)) < 1
   \<and> snd (resolvePass exactArithmetic [farWall] playerBox (Vector3d 0 0 0) (Vector3d 10 0 0))
       = Vector3d (7/2) 0 0
   \<and> resolveLoop exactArithmetic [farWall] playerBox (Vector3d 0 0 0) (Vector3d 10 0 0) 0
       = Inr (Vector3d (7/2) 0 0)
   \<and> resolveLoop exactArithmetic [farWall] playerBox (Vector3d (7/2) 0 0) (Vector3d 10 0 0) (Suc 0)
       = Inr (Vector3d 7 0 0)"
proof -
  have a: "resolveLoop exactArithmetic [farWall] playerBox (Vector3d 0 0 0) (Vector3d (7/2) 0 0) (Suc 0)
       = Inr (Vector3d (7/2) 0 0)"
    by (subst resolveLoop.simps) (simp add: farWall_second)
  have b: "resolveLoop exactArithmetic [farWall] playerBox (Vector3d 0 0 0) (Vector3d 10 0 0) 0
       = Inr (Vector3d (7/2) 0 0)"
    by (subst resolveLoop.simps) (simp add: farWall_first a)
  have c: "resolveLoop exactArithmetic [farWall] playerBox (Vector3d (7/2) 0 0) (Vector3d 7 0 0) (Suc (Suc 0))
       = Inr (Vector3d 7 0 0)"
    by (subst resolveLoop.simps) (simp add: farWall_from_new_position_second)
  have d: "resolveLoop exactArithmetic [farWall] playerBox (Vector3d (7/2) 0 0) (Vector3d 10 0 0) (Suc 0)
       = Inr (Vector3d 7 0 0)"
    by (subst resolveLoop.simps) (simp add: farWall_from_new_position c)
  show ?thesis by (simp add: farWall_first b d)
qed

text \<open>
  C3 (as amended). If the sweep of the player's box from \<open>lastPosition\<close> towards
  \<open>desiredPosition\<close> has fraction 1 against every drawable object that is neither destroyed
  nor invisible, \<^verbatim>\<open>resolveCollisions\<close> returns
  \<open>lastPosition + 1.0 * (desiredPosition - lastPosition) + 1.5 * (0, 0, 0)\<close> as computed in
  floating point: the normal is the zero vector, so no epsilon push is applied. This is
  \<open>desiredPosition\<close> itself whenever the arithmetic is exact.
\<close>

theorem resolveCollisions_unobstructed:
  assumes "\<forall>obj\<in>set (drawableObjects area).
             \<not> isDestroyed e obj \<and> \<not> isInvisible e obj \<longrightarrow>
             fst (sweepAABB e (createPlayerAABB e lastPosition playerHeight) (boundingBox obj)
                    (vsub e desiredPosition lastPosition) zero) = 1"
  shows "resolveCollisions e area lastPosition desiredPosition playerHeight
           = Inr (vadd e (vadd e lastPosition (smul e 1 (vsub e desiredPosition lastPosition)))
                    (smul e (3/2) zero))
         \<and> ((\<forall>x. rnd e x = x) \<longrightarrow>
              resolveCollisions e area lastPosition desiredPosition playerHeight
                = Inr desiredPosition)"
proof -
  have r: "resolveCollisions e area lastPosition desiredPosition playerHeight
           = Inr (vadd e (vadd e lastPosition (smul e 1 (vsub e desiredPosition lastPosition)))
                    (smul e (3/2) zero))"
    unfolding resolveCollisions_def
    by (subst resolveLoop.simps)
       (simp add: resolvePass_def Let_def epsilon_def foldl_sweepObject_free [OF assms])
  have "vadd e (vadd e lastPosition (smul e 1 (vsub e desiredPosition lastPosition)))
                    (smul e (3/2) zero) = desiredPosition" if "\<forall>x. rnd e x = x"
    using that
    by (cases desiredPosition; cases lastPosition)
       (simp add: vadd_def vsub_def smul_def fadd_def fsub_def fmul_def zero_def)
  with r show ?thesis by simp
qed

theorem resolveCollisions_unobstructed_witness:
  "resolveCollisions exactArithmetic (exampleArea [farWall]) (Vector3d 0 0 0) (Vector3d 3 0 0) 1
     = Inr (Vector3d 3 0 0)
   \<and> \<not> isDestroyed exactArithmetic farWall \<and> \<not> isInvisible exactArithmetic farWall"
proof -
  have h: "\<forall>obj\<in>set (drawableObjects (exampleArea [farWall])).
      \<not> isDestroyed exactArithmetic obj \<and> \<not> isInvisible exactArithmetic obj \<longrightarrow>
      fst (sweepAABB exactArithmetic (createPlayerAABB exactArithmetic (Vector3d 0 0 0) 1)
          (boundingBox obj) (vsub exactArithmetic (Vector3d 3 0 0) (Vector3d 0 0 0)) zero) = 1"
    by (simp add: eval_defs exampleArea_def)
  have "\<forall>x. rnd exactArithmetic x = x"
    by (simp add: exactArithmetic_def)
  with resolveCollisions_unobstructed [OF h]
  have "resolveCollisions exactArithmetic (exampleArea [farWall]) (Vector3d 0 0 0) (Vector3d 3 0 0) 1
     = Inr (Vector3d 3 0 0)"
    by blast
  moreover have "\<not> isDestroyed exactArithmetic farWall \<and> \<not> isInvisible exactArithmetic farWall"
    by (simp add: exactArithmetic_def farWall_def cube_def)
  ultimately show ?thesis by blast
qed

text \<open>
  The claim as stated fails in single precision. The player stands at \<open>(5, 2, 0)\<close> above the
  floor and wants to move to \<open>(1 + 2\<^sup>-\<^sup>2\<^sup>3, 2, 0)\<close>; the sweep against the floor has
  fraction 1. The motion \<open>(1 + 2\<^sup>-\<^sup>2\<^sup>3) - 5\<close> rounds to \<open>-4\<close>, and the function returns
  \<open>(1, 2, 0)\<close>, which is not the desired position.
\<close>

theorem resolveCollisions_unobstructed_counterexample:
  "fst (sweepAABB singlePrecision (createPlayerAABB singlePrecision (Vector3d 5 2 0) 1)
          (boundingBox floorObject)
          (vsub singlePrecision (Vector3d (8388609 / 8388608) 2 0) (Vector3d 5 2 0)) zero) = 1
   \<and> \<not> isDestroyed singlePrecision floorObject \<and> \<not> isInvisible singlePrecision floorObject
   \<and> resolveCollisions singlePrecision (exampleArea [floorObject]) (Vector3d 5 2 0)
         (Vector3d (8388609 / 8388608) 2 0) 1 = Inr (Vector3d 1 2 0)
   \<and> Vector3d 1 2 0 \<noteq> Vector3d (8388609 / 8388608) 2 0"
proof -
  have "foldl (sweepObject singlePrecision (createPlayerAABB singlePrecision (Vector3d 5 2 0) 1)
          (vsub singlePrecision (Vector3d (8388609 / 8388608) 2 0) (Vector3d 5 2 0)))
          (1, zero) [floorObject] = (1, zero)"
    by (rule foldl_sweepObject_free) (simp add: floor_sweep)
  then have "resolveCollisions singlePrecision (exampleArea [floorObject]) (Vector3d 5 2 0)
         (Vector3d (8388609 / 8388608) 2 0) 1 = Inr (Vector3d 1 2 0)"
    unfolding resolveCollisions_def
    by (subst resolveLoop.simps)
       (simp add: resolvePass_def Let_def epsilon_def exampleArea_def,
        simp add: singlePrecision_def exactArithmetic_def
          vadd_def vsub_def smul_def fadd_def fsub_def fmul_def zero_def
          binary32_0 binary32_1 binary32_tie binary32_numeral)
  moreover have "\<not> isDestroyed singlePrecision floorObject \<and> \<not> isInvisible singlePrecision floorObject"
    by (simp add: singlePrecision_def exactArithmetic_def floorObject_def cube_def)
  ultimately show ?thesis by (simp add: floor_sweep)
qed



text \<open>
  C5 (as amended). \<^verbatim>\<open>shootRay\<close> returns none exactly when no drawable object qualifies; an
  object qualifies exactly when it is not destroyed, not invisible, has a valid bounding
  box, is intersected by the ray, and the length of its extent vector does not exceed the
  initial cutoff \<open>16 * 8192 = 131072\<close>. Otherwise it returns a qualifying object of smallest
  length, and among several of that length the last one in iteration order: no object hit
  before it is smaller, and every object hit after it is strictly larger.
\<close>

theorem shootRay_selects:
  fixes e area ray
  defines "objs \<equiv> drawableObjects area"
  shows "(shootRay e area ray = None \<longleftrightarrow>
            (\<forall>obj\<in>set objs. \<not> (rayHits e ray obj \<and> vlength e (getSize_obj obj) \<le> 131072)))
         \<and> (\<forall>obj. shootRay e area ray = Some obj \<longrightarrow> lastSmallest e ray 131072 objs obj)"
proof (cases "\<exists>obj\<in>set objs. rayHits e ray obj \<and> vlength e (getSize_obj obj) \<le> 131072")
  case True
  from foldl_shootStep_some [OF True, of None] obtain obj where
    "foldl (shootStep e ray) (131072, None) objs = (vlength e (getSize_obj obj), Some obj)"
    "lastSmallest e ray 131072 objs obj"
    by blast
  with True show ?thesis by (auto simp: shootRay_def objs_def)
next
  case False
  then have "foldl (shootStep e ray) (131072, None) objs = (131072, None)"
    by (intro foldl_shootStep_none) blast
  with False show ?thesis by (auto simp: shootRay_def objs_def)
qed

theorem shootRay_selects_witness:
  "shootRay exactArithmetic (exampleArea [bigWall, smallSwitch]) exampleRay = Some smallSwitch
   \<and> lastSmallest exactArithmetic exampleRay 131072
         (drawableObjects (exampleArea [bigWall, smallSwitch])) smallSwitch
   \<and> shootRay exactArithmetic (exampleArea []) exampleRay = None"
  using shootRay_selects [where e = exactArithmetic and area = "exampleArea [bigWall, smallSwitch]"
      and ray = exampleRay]
    shootRay_small_big
  by simp

text \<open>
  The claim as stated fails on ties: two objects of the same length 10 are both hit, and
  the second one in iteration order is returned, not the first.
\<close>

theorem shootRay_selects_counterexample:
  "rayHits exactArithmetic exampleRay smallSwitch
   \<and> rayHits exactArithmetic exampleRay otherSwitch
   \<and> vlength exactArithmetic (getSize_obj smallSwitch) = 10
   \<and> vlength exactArithmetic (getSize_obj otherSwitch) = 10
   \<and> shootRay exactArithmetic (exampleArea [smallSwitch, otherSwitch]) exampleRay
       = Some otherSwitch
   \<and> smallSwitch \<noteq> otherSwitch"
  using switches_hit shootRay_small_big by simp

text \<open>
  C6. \<^verbatim>\<open>checkInSight\<close> places a cube of side \<^verbatim>\<open>maxDistance / 30\<close> at the nine points
  \<open>origin + k * (maxDistance / 10) * direction\<close>, \<open>k = 2, ..., 10\<close>, along the normalized
  direction of the ray. It returns false exactly when at one of these points some drawable
  object that is not a sensor, not destroyed, not invisible and has a valid bounding box
  collides with the cube, and true otherwise.
\<close>

theorem checkInSight_samples:
  "(checkInSight e area ray maxDistance = False \<longleftrightarrow>
      (\<exists>k\<in>{2..10}. \<exists>obj\<in>set (drawableObjects area).
          getType obj \<noteq> kSensorType \<and> \<not> isDestroyed e obj \<and> \<not> isInvisible e obj
          \<and> isValid (boundingBox obj)
          \<and> collides e
               (vadd e (getOrigin_ray ray)
                  (smul e (fmul e (of_int k) (fdiv e maxDistance 10)) (normalize e (getDirection ray))))
               (Vector3d (fdiv e maxDistance 30) (fdiv e maxDistance 30) (fdiv e maxDistance 30))
               (boundingBox obj)))
   \<and> length [2..10] = 9"
proof
  show "checkInSight e area ray maxDistance = False \<longleftrightarrow>
      (\<exists>k\<in>{2..10}. \<exists>obj\<in>set (drawableObjects area).
          getType obj \<noteq> kSensorType \<and> \<not> isDestroyed e obj \<and> \<not> isInvisible e obj
          \<and> isValid (boundingBox obj)
          \<and> collides e
               (vadd e (getOrigin_ray ray)
                  (smul e (fmul e (of_int k) (fdiv e maxDistance 10)) (normalize e (getDirection ray))))
               (Vector3d (fdiv e maxDistance 30) (fdiv e maxDistance 30) (fdiv e maxDistance 30))
               (boundingBox obj))"
    unfolding checkInSight_def list_ex_iff set_upto blocksSight_def sightSample_def
      sightProbeSize_def Let_def
    by blast
  show "length [2..10] = 9" by simp
qed

theorem checkInSight_samples_witness:
  "checkInSight exactArithmetic (exampleArea [farWall]) forwardRay 30 = False
   \<and> sightSample exactArithmetic forwardRay 30 2 = Vector3d 6 0 0
   \<and> checkInSight exactArithmetic (exampleArea [farWall]) backwardRay 1000 = True"
  using checkInSight_samples [of exactArithmetic "exampleArea [farWall]" forwardRay 30]
    sight_examples
  by (simp add: sightSample_def exactArithmetic_def forwardRay_def vadd_def smul_def fadd_def
      fmul_def fdiv_def)




text \<open>
  C8. \<^verbatim>\<open>addObject\<close> fails its assertion when the pointer is null or the object's
  identifier is already a key of the objects map. Otherwise it stores the object in the
  objects map and in the added-objects map under its identifier and, if the object is
  drawable, puts it at the front of the drawable-ordered view, before every object that
  was there, whatever its identifier or planarity; the rest of the view is unchanged.
\<close>

theorem addObject_effect:
  "addObject None area = Inl AssertionFailed
   \<and> (objectsByID area (getObjectID obj) \<noteq> None \<longrightarrow>
        addObject (Some obj) area = Inl AssertionFailed)
   \<and> (objectsByID area (getObjectID obj) = None \<longrightarrow>
        (\<exists>area'. addObject (Some obj) area = Inr area'
           \<and> objectsByID area' = (objectsByID area)(getObjectID obj \<mapsto> obj)
           \<and> addedObjects area' = (addedObjects area)(getObjectID obj \<mapsto> obj)
           \<and> getObjectID obj \<in> dom (addedObjects area')
           \<and> drawableObjects area' =
               (if isDrawable obj then obj # drawableObjects area else drawableObjects area)
           \<and> entrancesByID area' = entrancesByID area
           \<and> colorRemaps area' = colorRemaps area))"
  by (simp add: addObject_def Let_def)

theorem addObject_effect_witness:
  "objectsByID (exampleArea [farWall]) (getObjectID planarObject) = None
   \<and> (\<exists>area'. addObject (Some planarObject) (exampleArea [farWall]) = Inr area'
         \<and> drawableObjects area' = [planarObject, farWall]
         \<and> getObjectID planarObject \<in> dom (addedObjects area'))
   \<and> isPlanar planarObject \<and> \<not> isPlanar farWall
   \<and> getObjectID planarObject < getObjectID farWall
   \<and> objectsByID (exampleArea [farWall]) (getObjectID farWall) \<noteq> None
   \<and> addObject (Some farWall) (exampleArea [farWall]) = Inl AssertionFailed"
  using addObject_effect [of "exampleArea [farWall]" planarObject]
    addObject_effect [of "exampleArea [farWall]" farWall] addObject_examples(3,4)
  by (auto simp: planarObject_def farWall_def cube_def exampleArea_def)

text \<open>
  C9. The invariant fails for identifiers of \<open>32768\<close> and above. \<^verbatim>\<open>removeObject\<close> takes a
  signed 16-bit identifier: the objects map finds the key with the same bits and erases
  it, but the comparison with the unsigned \<^verbatim>\<open>getObjectID()\<close> never holds, so the view
  keeps the object. An object with identifier 40000 is added to an empty area and removed
  again; the view still holds it although the map does not, and adding another object
  under the same identifier leaves two view entries for it.
\<close>

theorem removeObject_orphan:
  "\<exists>area1 area2 area3.
     addObject (Some highObject) (newArea 1 0 [] []) = Inr area1
     \<and> removeObject 40000 area1 = Inr area2
     \<and> objectsByID area2 (getObjectID highObject) = None
     \<and> drawableObjects area2 = [highObject]
     \<and> addObject (Some highObject2) area2 = Inr area3
     \<and> drawableObjects area3 = [highObject2, highObject]
     \<and> getObjectID highObject2 = 40000 \<and> getObjectID highObject = 40000"
  by (simp add: addObject_def removeObject_def newArea_def sortObjects_def Let_def
      highObject_def highObject2_def cube_def)

text \<open>
  C10. After \<^verbatim>\<open>unremapColor\<close> the map of colour remaps is empty, whatever the index: the
  index is passed to the map's \<^verbatim>\<open>clear\<close>, which takes it for its flag and removes every
  entry.
\<close>

theorem unremapColor_clears: "colorRemaps (unremapColor index area) = Map.empty"
  by (simp add: unremapColor_def clear_def)

end
